theory Spec2Isabelle
  imports Main "HOL-Library.AList"
begin

section \<open>Error kinds of the application (tracing-example.ts)\<close>

text \<open>
  The three classes built with \<open>Data.TaggedError\<close>:
  \<^verbatim>\<open>
  class UserNotFound    extends Data.TaggedError("UserNotFound")<{ userId: string }>
  class ValidationError extends Data.TaggedError("ValidationError")<{ field: string; message: string }>
  class DatabaseError   extends Data.TaggedError("DatabaseError")<{ operation: string; details: string }>
  \<close>
  They form a closed tagged union; \<open>error_tag\<close> is the \<open>_tag\<close> discriminator.
\<close>

datatype app_error =
    UserNotFound (nf_userId: string)
  | ValidationError (ve_field: string) (ve_message: string)
  | DatabaseError (db_operation: string) (db_details: string)

fun error_tag :: "app_error \<Rightarrow> string" where
  "error_tag (UserNotFound _) = ''UserNotFound''"
| "error_tag (ValidationError _ _) = ''ValidationError''"
| "error_tag (DatabaseError _ _) = ''DatabaseError''"

text \<open>
  \<open>error.message\<close>: the getter of \<open>UserNotFound\<close> and the field of
  \<open>ValidationError\<close>. No code of the repository reads the message of a
  \<open>DatabaseError\<close>, and the class does not define one, so it has no equation.
\<close>

fun message :: "app_error \<Rightarrow> string" where
  "message (UserNotFound userId) = ''User with ID '' @ userId @ '' not found''"
| "message (ValidationError _ m) = m"

section \<open>Outcome model\<close>

text \<open>
  The terminal state of a run: the three cases of the outcome (success, typed failure,
  defect) and the distinguished state of a cancelled run.
\<close>

datatype ('a, 'e, 'd) outcome =
    Success 'a
  | Failure 'e
  | Defect 'd
  | Interrupted

fun is_failure :: "('a, 'e, 'd) outcome \<Rightarrow> bool" where
  "is_failure (Failure _) = True"
| "is_failure _ = False"

fun is_defect :: "('a, 'e, 'd) outcome \<Rightarrow> bool" where
  "is_defect (Defect _) = True"
| "is_defect _ = False"

datatype ('e, 'a) either_value = Left 'e | Right 'a

section \<open>Execution state of the interpreter\<close>

datatype attr_value = AStr string | ABool bool | ATime nat

datatype span_status = StatusUnset | StatusOk | StatusError

record span =
  span_id :: nat
  span_name :: string
  span_parent :: "nat option"
  span_attrs :: "(string \<times> attr_value) list"
  span_status :: span_status
  span_start :: nat
  span_end :: "nat option"

datatype log_level = LevelInfo | LevelWarning | LevelError

datatype log_arg = Text string | ErrorObj app_error

text \<open>
  The state the interpreter threads through a run: the stack of open spans (its head is
  the current span), the spans closed so far in closing order, the number of spans opened,
  the log, a clock in milliseconds, and the cancellation request: \<open>Some n\<close> when the run
  is cancelled after \<open>n\<close> more suspension points have completed, \<open>None\<close> when nobody
  cancels it.
\<close>

record runtime =
  open_spans :: "span list"
  closed_spans :: "span list"
  next_span_id :: nat
  logs :: "(log_level \<times> log_arg list) list"
  clock :: nat
  cancel_after :: "nat option"

type_synonym ('a, 'e, 'd) effect = "runtime \<Rightarrow> ('a, 'e, 'd) outcome \<times> runtime"

definition init_runtime :: runtime where
  "init_runtime =
     \<lparr>open_spans = [], closed_spans = [], next_span_id = 0, logs = [], clock = 0,
      cancel_after = None\<rparr>"

section \<open>Combinators of the effect library\<close>

text \<open>
  The repository builds its descriptions with the \<open>effect\<close> package, which is not part of
  its sources. Each combinator below is therefore written from the specification of the
  composition core (sections 4.1, 4.2, 4.4 and 5), as a function from the execution
  state to an outcome and the next state.
\<close>

text \<open>Modelled from the spec: \<open>succeed(value)\<close>, \<open>fail(error)\<close>, \<open>die(cause)\<close> are
  "terminal leaf nodes producing the corresponding Outcome case immediately".\<close>

definition succeed :: "'a \<Rightarrow> ('a, 'e, 'd) effect" where
  "succeed a = (\<lambda>s. (Success a, s))"

definition fail :: "'e \<Rightarrow> ('a, 'e, 'd) effect" where
  "fail e = (\<lambda>s. (Failure e, s))"

definition die :: "'d \<Rightarrow> ('a, 'e, 'd) effect" where
  "die d = (\<lambda>s. (Defect d, s))"

text \<open>Modelled from the spec: \<open>flatMap(desc, f)\<close> "runs desc; if Success, evaluates
  f(value) to obtain the next description and continues; if Failure or Defect,
  short-circuits without invoking f". \<open>yield*\<close> inside \<open>Effect.gen\<close> is this
  sequencing.\<close>

definition flatMap :: "('a, 'e, 'd) effect \<Rightarrow> ('a \<Rightarrow> ('b, 'e, 'd) effect) \<Rightarrow> ('b, 'e, 'd) effect" where
  "flatMap m f = (\<lambda>s.
     case m s of
       (Success a, s') \<Rightarrow> f a s'
     | (Failure e, s') \<Rightarrow> (Failure e, s')
     | (Defect d, s') \<Rightarrow> (Defect d, s')
     | (Interrupted, s') \<Rightarrow> (Interrupted, s'))"

text \<open>Modelled from the spec: \<open>map(desc, f)\<close> "transforms the Success value only;
  Failure/Defect pass through unchanged".\<close>

definition map_effect :: "('a, 'e, 'd) effect \<Rightarrow> ('a \<Rightarrow> 'b) \<Rightarrow> ('b, 'e, 'd) effect" where
  "map_effect m f = (\<lambda>s.
     case m s of
       (Success a, s') \<Rightarrow> (Success (f a), s')
     | (Failure e, s') \<Rightarrow> (Failure e, s')
     | (Defect d, s') \<Rightarrow> (Defect d, s')
     | (Interrupted, s') \<Rightarrow> (Interrupted, s'))"

text \<open>Modelled from the spec: \<open>catchKind(desc, kindHandlers)\<close> "on Failure whose kind
  matches, runs the handler's description in place of the failure; kinds without a
  handler re-raise unchanged"; "handler selection is by kind discriminator". The handler
  object is a finite map from tags to handlers (\<open>Effect.catchTags\<close>);
  \<open>Effect.catchTag(tag, h)\<close> is the case of one tag.\<close>

definition catchTags ::
  "('a, app_error, 'd) effect \<Rightarrow> (string \<rightharpoonup> (app_error \<Rightarrow> ('a, app_error, 'd) effect))
     \<Rightarrow> ('a, app_error, 'd) effect" where
  "catchTags m handlers = (\<lambda>s.
     case m s of
       (Failure e, s') \<Rightarrow>
         (case handlers (error_tag e) of
            Some h \<Rightarrow> h e s'
          | None \<Rightarrow> (Failure e, s'))
     | (r, s') \<Rightarrow> (r, s'))"

definition catchTag ::
  "('a, app_error, 'd) effect \<Rightarrow> string \<Rightarrow> (app_error \<Rightarrow> ('a, app_error, 'd) effect)
     \<Rightarrow> ('a, app_error, 'd) effect" where
  "catchTag m tag h = (\<lambda>s.
     case m s of
       (Failure e, s') \<Rightarrow> if error_tag e = tag then h e s' else (Failure e, s')
     | (r, s') \<Rightarrow> (r, s'))"

text \<open>Modelled from the spec: \<open>sleep(duration)\<close> "suspends ...; resumes after at least
  duration has elapsed; the current span remains the ambient one across the suspension".
  A suspension point is where a cancellation takes effect (section 5): a cancelled run
  "yields a distinguished Interrupted terminal state". The clock advances by the
  duration exactly.\<close>

definition sleep :: "nat \<Rightarrow> (unit, 'e, 'd) effect" where
  "sleep ms = (\<lambda>s.
     case cancel_after s of
       None \<Rightarrow> (Success (), s\<lparr>clock := clock s + ms\<rparr>)
     | Some 0 \<Rightarrow> (Interrupted, s)
     | Some (Suc n) \<Rightarrow> (Success (), s\<lparr>clock := clock s + ms, cancel_after := Some n\<rparr>))"

text \<open>Modelled from the spec: \<open>spanWrap(desc, name, attributes)\<close> "opens a new child
  span under the current ambient span before running desc, sets it as current for the
  duration of desc's execution, and closes it (recording status = error if the terminal
  Outcome of desc is Failure or Defect, ok otherwise) when desc completes, regardless
  of which case it terminates in". This is \<open>Effect.withSpan\<close>.\<close>

fun status_of :: "('a, 'e, 'd) outcome \<Rightarrow> span_status" where
  "status_of (Failure _) = StatusError"
| "status_of (Defect _) = StatusError"
| "status_of _ = StatusOk"

definition current_span_id :: "runtime \<Rightarrow> nat option" where
  "current_span_id s = (case open_spans s of [] \<Rightarrow> None | sp # _ \<Rightarrow> Some (span_id sp))"

definition open_span :: "string \<Rightarrow> (string \<times> attr_value) list \<Rightarrow> runtime \<Rightarrow> runtime" where
  "open_span name attributes s =
     s\<lparr>open_spans :=
         \<lparr>span_id = next_span_id s, span_name = name, span_parent = current_span_id s,
          span_attrs = attributes, span_status = StatusUnset, span_start = clock s,
          span_end = None\<rparr> # open_spans s,
       next_span_id := Suc (next_span_id s)\<rparr>"

definition close_span :: "('a, 'e, 'd) outcome \<Rightarrow> runtime \<Rightarrow> runtime" where
  "close_span r s =
     (case open_spans s of
        [] \<Rightarrow> s
      | cur # rest \<Rightarrow>
          s\<lparr>open_spans := rest,
            closed_spans := closed_spans s @
              [cur\<lparr>span_status := status_of r, span_end := Some (clock s)\<rparr>]\<rparr>)"

definition withSpan ::
  "string \<Rightarrow> (string \<times> attr_value) list \<Rightarrow> ('a, 'e, 'd) effect \<Rightarrow> ('a, 'e, 'd) effect" where
  "withSpan name attributes m = (\<lambda>s.
     case m (open_span name attributes s) of (r, s') \<Rightarrow> (r, close_span r s'))"

text \<open>Modelled from the spec: \<open>annotateCurrentSpan(attributes)\<close> "merges key/value
  pairs into whichever span is currently ambient at the point of evaluation; a no-op if
  no span is active".\<close>

definition merge_attrs ::
  "(string \<times> attr_value) list \<Rightarrow> (string \<times> attr_value) list \<Rightarrow> (string \<times> attr_value) list" where
  "merge_attrs old new = fold (\<lambda>(k, v). AList.update k v) new old"

definition annotateCurrentSpan :: "(string \<times> attr_value) list \<Rightarrow> (unit, 'e, 'd) effect" where
  "annotateCurrentSpan attributes = (\<lambda>s.
     case open_spans s of
       [] \<Rightarrow> (Success (), s)
     | cur # rest \<Rightarrow>
         (Success (),
          s\<lparr>open_spans := cur\<lparr>span_attrs := merge_attrs (span_attrs cur) attributes\<rparr> # rest\<rparr>))"

text \<open>Modelled from the spec: the logging calls of the library (\<open>Effect.logInfo\<close>,
  \<open>Effect.logWarning\<close>, \<open>Effect.logError\<close>) are not among the primitives of section
  4.2; they are leaves that succeed at once, and here they append one entry to the log
  and leave the spans alone.\<close>

definition log_effect :: "log_level \<Rightarrow> log_arg list \<Rightarrow> (unit, 'e, 'd) effect" where
  "log_effect level args = (\<lambda>s. (Success (), s\<lparr>logs := logs s @ [(level, args)]\<rparr>))"

definition logInfo :: "log_arg list \<Rightarrow> (unit, 'e, 'd) effect" where
  "logInfo = log_effect LevelInfo"

definition logWarning :: "log_arg list \<Rightarrow> (unit, 'e, 'd) effect" where
  "logWarning = log_effect LevelWarning"

definition logError :: "log_arg list \<Rightarrow> (unit, 'e, 'd) effect" where
  "logError = log_effect LevelError"

text \<open>Modelled from the spec: the conversions of section 4.1. \<open>toEither\<close>
  (\<open>Effect.either\<close>): "Success/Failure -> ok/err, Defect is re-raised as a process-level
  fault"; \<open>toExit\<close> (\<open>Effect.exit\<close>): "exposes all three cases explicitly".\<close>

definition either :: "('a, 'e, 'd) effect \<Rightarrow> (('e, 'a) either_value, 'e2, 'd) effect" where
  "either m = (\<lambda>s.
     case m s of
       (Success a, s') \<Rightarrow> (Success (Right a), s')
     | (Failure e, s') \<Rightarrow> (Success (Left e), s')
     | (Defect d, s') \<Rightarrow> (Defect d, s')
     | (Interrupted, s') \<Rightarrow> (Interrupted, s'))"

definition toExit :: "('a, 'e, 'd) effect \<Rightarrow> (('a, 'e, 'd) outcome, 'e2, 'd2) effect" where
  "toExit m = (\<lambda>s.
     case m s of
       (Success a, s') \<Rightarrow> (Success (Success a), s')
     | (Failure e, s') \<Rightarrow> (Success (Failure e), s')
     | (Defect d, s') \<Rightarrow> (Success (Defect d), s')
     | (Interrupted, s') \<Rightarrow> (Interrupted, s'))"

text \<open>Modelled from the spec: the run-to-completion entry point (section 4.5,
  \<open>Effect.runPromise\<close>) "converts a description into a single awaited result and is the
  only place a Defect may legitimately cross into a host-level unrecoverable failure
  signal": the promise resolves with the success value and rejects in every other
  case.\<close>

datatype ('e, 'd) cause = Fail 'e | Die 'd | Interrupt

datatype ('a, 'e, 'd) promise = Resolved 'a | Rejected "('e, 'd) cause"

definition runPromise :: "('a, 'e, 'd) effect \<Rightarrow> runtime \<Rightarrow> ('a, 'e, 'd) promise \<times> runtime" where
  "runPromise m s =
     (case m s of
        (Success a, s') \<Rightarrow> (Resolved a, s')
      | (Failure e, s') \<Rightarrow> (Rejected (Fail e), s')
      | (Defect d, s') \<Rightarrow> (Rejected (Die d), s')
      | (Interrupted, s') \<Rightarrow> (Rejected Interrupt, s'))"

text \<open>Modelled from the spec: \<open>provide(desc, registryFragment)\<close> "discharges some of
  desc's declared capability requirements by supplying concrete implementations, scoped
  to desc's execution". \<open>TracingLive.ts\<close> is not among the sources; by section 6 the
  layer is the exporter that subscribes to the closing of spans. The span tree itself is
  the one the state records, so providing the layer leaves the description as it is.\<close>

definition provide_TracingLive :: "('a, 'e, 'd) effect \<Rightarrow> ('a, 'e, 'd) effect" where
  "provide_TracingLive m = m"

section \<open>The business logic (tracing-example.ts)\<close>

text \<open>
  The record the repository returns, and the record after processing: the spread
  \<open>{ ...user, processed: true, timestamp: ... }\<close> keeps every field of the user.
  \<open>new Date().toISOString()\<close> is the reading of the clock; its rendering as an
  ISO-8601 string is not modelled.
\<close>

record user =
  user_id :: string
  name :: string
  email :: string
  createdAt :: nat

record processed_user = user +
  processed :: bool
  timestamp :: nat

subsection \<open>JavaScript string operations\<close>

text \<open>
  \<open>String.prototype.trim\<close> removes white space and line terminators at both ends.
  Strings here are lists of 8-bit characters, read as the code units \<open>0x00\<close> to
  \<open>0xFF\<close>. Among these, what \<open>trim\<close> removes is tab, line feed, vertical tab, form
  feed, carriage return, space and the no-break space \<open>0xA0\<close>. A string with a code
  unit beyond \<open>0xFF\<close> (the other white space of the language is there: U+FEFF, U+2028,
  U+2029 and the space separators from U+1680 on) has no counterpart in this type.
\<close>

definition is_whitespace :: "char \<Rightarrow> bool" where
  "is_whitespace c \<longleftrightarrow>
     c \<in> set [CHR 0x09, CHR 0x0A, CHR 0x0B, CHR 0x0C, CHR 0x0D, CHR '' '', CHR 0xA0]"

definition trim :: "string \<Rightarrow> string" where
  "trim str = rev (dropWhile is_whitespace (rev (dropWhile is_whitespace str)))"

subsection \<open>userRepository.findById\<close>

text \<open>
  \<^verbatim>\<open>
  findById: (userId: string) =>
    Effect.gen(function* () {
      yield* Effect.logInfo(`DB: Querying user ${userId}`);
      yield* Effect.sleep("50 millis");
      if (userId === "error") {
        return yield* Effect.fail(new DatabaseError({ operation: "SELECT", details: "Connection timeout" }));
      }
      if (userId === "404") { return Option.none(); }
      return Option.some({ id: userId, name: "John Doe", email: "john@example.com",
                           createdAt: new Date().toISOString() });
    }).pipe(Effect.withSpan("db.query", { attributes: { "db.operation": "SELECT", "db.table": "users", userId } }))
  \<close>
\<close>

definition findById :: "string \<Rightarrow> (user option, app_error, 'd) effect" where
  "findById userId =
     withSpan ''db.query''
       [(''db.operation'', AStr ''SELECT''), (''db.table'', AStr ''users''), (''userId'', AStr userId)]
       (flatMap (logInfo [Text (''DB: Querying user '' @ userId)]) (\<lambda>_.
        flatMap (sleep 50) (\<lambda>_.
        if userId = ''error'' then
          fail (DatabaseError ''SELECT'' ''Connection timeout'')
        else if userId = ''404'' then
          succeed None
        else
          (\<lambda>s. succeed (Some \<lparr>user_id = userId, name = ''John Doe'',
                                 email = ''john@example.com'', createdAt = clock s\<rparr>) s))))"

subsection \<open>fetchUserData\<close>

text \<open>
  \<^verbatim>\<open>
  const fetchUserData = (userId: string) =>
    Effect.gen(function* () {
      yield* Effect.logInfo(`Fetching user data for: ${userId}`);
      if (!userId || userId.trim() === "") {
        return yield* Effect.fail(new ValidationError({ field: "userId", message: "User ID cannot be empty" }));
      }
      const result = yield* userRepository.findById(userId);
      return yield* Option.match(result, {
        onNone: () => Effect.fail(new UserNotFound({ userId })),
        onSome: Effect.succeed,
      });
    }).pipe(
      Effect.withSpan("user.fetch", { attributes: { userId } }),
      Effect.catchTag("DatabaseError", (error) =>
        Effect.gen(function* () {
          yield* Effect.logError("Database error occurred", error);
          yield* Effect.annotateCurrentSpan({ error: true, "error.type": "DatabaseError",
                                              "error.message": error.details });
          return yield* Effect.fail(error);
        })));
  \<close>
\<close>

definition fetchUserData :: "string \<Rightarrow> (user, app_error, 'd) effect" where
  "fetchUserData userId =
     catchTag
       (withSpan ''user.fetch'' [(''userId'', AStr userId)]
          (flatMap (logInfo [Text (''Fetching user data for: '' @ userId)]) (\<lambda>_.
           if userId = [] \<or> trim userId = [] then
             fail (ValidationError ''userId'' ''User ID cannot be empty'')
           else
             flatMap (findById userId) (\<lambda>result.
             case result of
               None \<Rightarrow> fail (UserNotFound userId)
             | Some u \<Rightarrow> succeed u))))
       ''DatabaseError''
       (\<lambda>error.
          flatMap (logError [Text ''Database error occurred'', ErrorObj error]) (\<lambda>_.
          flatMap (annotateCurrentSpan
                     [(''error'', ABool True), (''error.type'', AStr ''DatabaseError''),
                      (''error.message'', AStr (db_details error))]) (\<lambda>_.
          fail error)))"

subsection \<open>processUserData\<close>

text \<open>
  \<^verbatim>\<open>
  const processUserData = (user: { id: string; name: string; email: string }) =>
    Effect.gen(function* () {
      yield* Effect.logInfo(`Processing user: ${user.name}`);
      if (user.id === "process-error") {
        yield* Effect.fail(new DatabaseError({ operation: "UPDATE", details: "Failed to update user status" }));
      }
      yield* Effect.sleep("50 millis");
      return { ...user, processed: true, timestamp: new Date().toISOString() };
    }).pipe(Effect.withSpan("user.process", { attributes: { userId: user.id, userName: user.name } }));
  \<close>
\<close>

definition processUserData :: "user \<Rightarrow> (processed_user, app_error, 'd) effect" where
  "processUserData u =
     withSpan ''user.process'' [(''userId'', AStr (user_id u)), (''userName'', AStr (name u))]
       (flatMap (logInfo [Text (''Processing user: '' @ name u)]) (\<lambda>_.
        flatMap (if user_id u = ''process-error'' then
                   fail (DatabaseError ''UPDATE'' ''Failed to update user status'')
                 else succeed ()) (\<lambda>_.
        flatMap (sleep 50) (\<lambda>_.
        (\<lambda>s. succeed \<lparr>user_id = user_id u, name = name u, email = email u,
                         createdAt = createdAt u, processed = True, timestamp = clock s\<rparr> s)))))"

subsection \<open>businessLogic\<close>

text \<open>
  \<^verbatim>\<open>
  export const businessLogic = (userId: string) =>
    Effect.gen(function* () {
      yield* Effect.logInfo("Starting business logic");
      try {
        const user = yield* fetchUserData(userId);
        const processed = yield* processUserData(user);
        yield* Effect.annotateCurrentSpan({ "result.processed": processed.processed,
                 "result.timestamp": processed.timestamp, "result.success": true });
        yield* Effect.logInfo("Business logic completed");
        return processed;
      } catch (error) {
        // This won't actually catch Effect errors, just for demonstration
        yield* Effect.logError("Unexpected error", error);
        throw error;
      }
    }).pipe(
      Effect.withSpan("business.main"),
      Effect.catchTags({
        ValidationError: (error) => Effect.gen(function* () {
            yield* Effect.logWarning(`Validation failed: ${error.field} - ${error.message}`);
            return yield* Effect.fail(error); }),
        UserNotFound: (error) => Effect.gen(function* () {
            yield* Effect.logWarning(`User not found: ${error.userId}`);
            return yield* Effect.fail(error); }),
        DatabaseError: (error) => Effect.gen(function* () {
            yield* Effect.logError(`Database error: ${error.operation} - ${error.details}`);
            return yield* Effect.die(error); }),
      }));
  \<close>
  A failing \<open>yield*\<close> ends the generator without throwing into it, as the source's own
  comment says, so the \<open>catch\<close> block is never entered and has no counterpart here.
\<close>

definition businessLogic_handlers ::
  "string \<rightharpoonup> (app_error \<Rightarrow> ('a, app_error, app_error) effect)" where
  "businessLogic_handlers =
     [''ValidationError'' \<mapsto> (\<lambda>error.
        flatMap (logWarning [Text (''Validation failed: '' @ ve_field error @ '' - '' @ message error)])
          (\<lambda>_. fail error)),
      ''UserNotFound'' \<mapsto> (\<lambda>error.
        flatMap (logWarning [Text (''User not found: '' @ nf_userId error)])
          (\<lambda>_. fail error)),
      ''DatabaseError'' \<mapsto> (\<lambda>error.
        flatMap (logError [Text (''Database error: '' @ db_operation error @ '' - '' @ db_details error)])
          (\<lambda>_. die error))]"

definition businessLogic :: "string \<Rightarrow> (processed_user, app_error, app_error) effect" where
  "businessLogic userId =
     catchTags
       (withSpan ''business.main'' []
          (flatMap (logInfo [Text ''Starting business logic'']) (\<lambda>_.
           flatMap (fetchUserData userId) (\<lambda>u.
           flatMap (processUserData u) (\<lambda>p.
           flatMap (annotateCurrentSpan
                      [(''result.processed'', ABool (processed p)),
                       (''result.timestamp'', ATime (timestamp p)),
                       (''result.success'', ABool True)]) (\<lambda>_.
           flatMap (logInfo [Text ''Business logic completed'']) (\<lambda>_.
           succeed p)))))))
       businessLogic_handlers"

section \<open>The HTTP trigger (index.ts)\<close>

text \<open>
  A JSON payload as handed to \<open>c.json\<close>. \<open>JResponse\<close> is a response object that
  occurs as a value inside a payload, which is what the wrong composition order
  produces.
\<close>

datatype json =
    JStr string
  | JBool bool
  | JTime nat
  | JObj "(string \<times> json) list"
  | JResponse nat json

record response =
  status :: nat
  body :: json

definition c_json :: "json \<Rightarrow> nat \<Rightarrow> response" where
  "c_json obj code = \<lparr>status = code, body = obj\<rparr>"

definition processed_json :: "processed_user \<Rightarrow> json" where
  "processed_json p =
     JObj [(''id'', JStr (user_id p)), (''name'', JStr (name p)), (''email'', JStr (email p)),
           (''createdAt'', JTime (createdAt p)), (''processed'', JBool (processed p)),
           (''timestamp'', JTime (timestamp p))]"

text \<open>\<open>const userId = c.req.param("userId") || "123";\<close> where the parameter of the
  route \<open>/test/:userId?\<close> is a string or \<open>undefined\<close>; both \<open>undefined\<close> and the
  empty string are falsy.\<close>

definition userId_param :: "string option \<Rightarrow> string" where
  "userId_param p = (case p of None \<Rightarrow> ''123'' | Some v \<Rightarrow> if v = [] then ''123'' else v)"

subsection \<open>The handler with try/catch\<close>

text \<open>
  \<^verbatim>\<open>
  try {
    const result = await Effect.runPromise(businessLogic(userId).pipe(Effect.provide(TracingLive)));
    return c.json({ success: true, data: result });
  } catch (error) {
    return c.json({ success: false, error: error instanceof Error ? error.message : "Unknown error" }, 500);
  }
  \<close>
  The value a rejected \<open>runPromise\<close> throws is an error object of the library; its
  message is the parameter \<open>failure_message\<close>.
\<close>

definition test_handler_try ::
  "(('e, 'd) cause \<Rightarrow> string) \<Rightarrow> (string \<Rightarrow> (processed_user, 'e, 'd) effect) \<Rightarrow> string option
     \<Rightarrow> runtime \<Rightarrow> (response, 'e, 'd) promise \<times> runtime" where
  "test_handler_try failure_message logic p s =
     (let userId = userId_param p in
      case runPromise (provide_TracingLive (logic userId)) s of
        (Resolved result, s') \<Rightarrow>
          (Resolved (c_json (JObj [(''success'', JBool True), (''data'', processed_json result)]) 200), s')
      | (Rejected error, s') \<Rightarrow>
          (Resolved (c_json (JObj [(''success'', JBool False),
                                   (''error'', JStr (failure_message error))]) 500), s'))"

subsection \<open>The handler with Effect.either\<close>

text \<open>
  \<^verbatim>\<open>
  const result = await Effect.runPromise(
    businessLogic(userId).pipe(Effect.provide(TracingLive), Effect.either));
  if (result._tag === "Right") { return c.json({ success: true, data: result.right }); }
  const error = result.left;
  if (error instanceof ValidationError) {
    return c.json({ success: false, error: { type: "ValidationError", field: error.field,
                                             message: error.message } }, 400); }
  if (error instanceof UserNotFound) {
    return c.json({ success: false, error: { type: "UserNotFound", message: error.message } }, 404); }
  if (error instanceof DatabaseError) {
    return c.json({ success: false, error: { type: "DatabaseError", operation: error.operation,
                                             details: error.details } }, 500); }
  return c.json({ success: false, error: { type: "UnknownError", ... } }, 500);
  \<close>
  The three classes exhaust the error type, so the last \<open>return\<close> has no case here.
  The handler does not catch: when the promise rejects, so does the handler.
\<close>

definition either_response :: "(app_error, processed_user) either_value \<Rightarrow> response" where
  "either_response result =
     (case result of
        Right d \<Rightarrow> c_json (JObj [(''success'', JBool True), (''data'', processed_json d)]) 200
      | Left (ValidationError f m) \<Rightarrow>
          c_json (JObj [(''success'', JBool False),
                        (''error'', JObj [(''type'', JStr ''ValidationError''), (''field'', JStr f),
                                          (''message'', JStr (message (ValidationError f m)))])]) 400
      | Left (UserNotFound u) \<Rightarrow>
          c_json (JObj [(''success'', JBool False),
                        (''error'', JObj [(''type'', JStr ''UserNotFound''),
                                          (''message'', JStr (message (UserNotFound u)))])]) 404
      | Left (DatabaseError operation details) \<Rightarrow>
          c_json (JObj [(''success'', JBool False),
                        (''error'', JObj [(''type'', JStr ''DatabaseError''),
                                          (''operation'', JStr operation),
                                          (''details'', JStr details)])]) 500)"

definition test_handler_either ::
  "string option \<Rightarrow> runtime \<Rightarrow> (response, app_error, app_error) promise \<times> runtime" where
  "test_handler_either p s =
     (let userId = userId_param p in
      case runPromise (either (provide_TracingLive (businessLogic userId))) s of
        (Resolved result, s') \<Rightarrow> (Resolved (either_response result), s')
      | (Rejected error, s') \<Rightarrow> (Rejected error, s'))"

subsection \<open>The handler with Effect.map and Effect.catchTags\<close>

text \<open>
  \<^verbatim>\<open>
  return await Effect.runPromise(
    businessLogic(userId).pipe(
      Effect.provide(TracingLive),
      Effect.map((data) => c.json({ success: true, data })),
      Effect.catchTags({
        ValidationError: (error) => Effect.succeed(c.json({ success: false,
            error: { type: "ValidationError", field: error.field, message: error.message } }, 400)),
        UserNotFound: (error) => Effect.succeed(c.json({ success: false,
            error: { type: error._tag, message: error.message } }, 404)),
        // DatabaseError: ... (commented out)
      })));
  \<close>
\<close>

definition success_response :: "json \<Rightarrow> response" where
  "success_response d = c_json (JObj [(''success'', JBool True), (''data'', d)]) 200"

definition response_handlers :: "string \<rightharpoonup> (app_error \<Rightarrow> (response, app_error, 'd) effect)" where
  "response_handlers =
     [''ValidationError'' \<mapsto> (\<lambda>error.
        succeed (c_json (JObj [(''success'', JBool False),
                               (''error'', JObj [(''type'', JStr ''ValidationError''),
                                                 (''field'', JStr (ve_field error)),
                                                 (''message'', JStr (message error))])]) 400)),
      ''UserNotFound'' \<mapsto> (\<lambda>error.
        succeed (c_json (JObj [(''success'', JBool False),
                               (''error'', JObj [(''type'', JStr (error_tag error)),
                                                 (''message'', JStr (message error))])]) 404))]"

definition test_pipeline :: "string \<Rightarrow> (response, app_error, app_error) effect" where
  "test_pipeline userId =
     catchTags
       (map_effect (provide_TracingLive (businessLogic userId))
          (\<lambda>d. success_response (processed_json d)))
       response_handlers"

definition test_handler_catchTags ::
  "string option \<Rightarrow> runtime \<Rightarrow> (response, app_error, app_error) promise \<times> runtime" where
  "test_handler_catchTags p s = (let userId = userId_param p in runPromise (test_pipeline userId) s)"

subsection \<open>The two composition orders of the note on ordering\<close>

text \<open>
  The note shows both orders with one handler, whose error object it elides
  (\<open>error: { ... }\<close>); the elided object is the parameter \<open>error_obj\<close>.
  \<^verbatim>\<open>
  businessLogic(userId).pipe(                       // "wrong"
    Effect.catchTags({ UserNotFound: (error) =>
      Effect.succeed(c.json({ success: false, error: { ... } }, 404)) }),
    Effect.map((data) => c.json({ success: true, data })))

  businessLogic(userId).pipe(                       // "right"
    Effect.map((data) => c.json({ success: true, data })),
    Effect.catchTags({ UserNotFound: (error) =>
      Effect.succeed(c.json({ success: false, error: { ... } }, 404)) }))
  \<close>
  After the handler of the first order the value is a processed user or a response; the
  union is the sum type, its left injection being the identity of the source.
\<close>

definition not_found_response :: "(app_error \<Rightarrow> json) \<Rightarrow> app_error \<Rightarrow> response" where
  "not_found_response error_obj error =
     c_json (JObj [(''success'', JBool False), (''error'', error_obj error)]) 404"

definition data_json :: "processed_user + response \<Rightarrow> json" where
  "data_json d = (case d of Inl p \<Rightarrow> processed_json p | Inr r \<Rightarrow> JResponse (status r) (body r))"

definition catch_then_map :: "(app_error \<Rightarrow> json) \<Rightarrow> string \<Rightarrow> (response, app_error, app_error) effect" where
  "catch_then_map error_obj userId =
     map_effect
       (catchTags (map_effect (businessLogic userId) Inl)
          [''UserNotFound'' \<mapsto> (\<lambda>error. succeed (Inr (not_found_response error_obj error)))])
       (\<lambda>d. success_response (data_json d))"

definition map_then_catch :: "(app_error \<Rightarrow> json) \<Rightarrow> string \<Rightarrow> (response, app_error, app_error) effect" where
  "map_then_catch error_obj userId =
     catchTags
       (map_effect (businessLogic userId) (\<lambda>d. success_response (processed_json d)))
       [''UserNotFound'' \<mapsto> (\<lambda>error. succeed (not_found_response error_obj error))]"

subsection \<open>The first version of the route, with its own business logic\<close>








subsection \<open>The framework around the handler\<close>

text \<open>Modelled from the spec: the web framework that calls the handler is not among the
  sources. Section 6: the trigger "must treat Defect as an internal-fault response; it
  must treat Interrupted (client disconnect/cancel) as no response sent"; section 7:
  "Defects always yield a generic internal-fault response". A handler that resolves
  answers with its response; an uncaught rejection is the generic fault.\<close>

definition internal_fault_response :: response where
  "internal_fault_response = \<lparr>status = 500, body = JStr ''Internal Server Error''\<rparr>"

definition serve :: "(response, 'e, 'd) promise \<Rightarrow> response option" where
  "serve p =
     (case p of
        Resolved r \<Rightarrow> Some r
      | Rejected Interrupt \<Rightarrow> None
      | Rejected _ \<Rightarrow> Some internal_fault_response)"

section \<open>Span discipline of a description\<close>

text \<open>
  What a run may do to the spans between two states: the open spans stay the same
  spans in the same order (only their attributes may change, through annotations), the
  closed spans are only added to, and the spans added are exactly the spans opened in
  between, each once: their identifiers are the identifiers handed out, without
  repetition. A description is balanced when it does this from every state.
\<close>

definition span_frame :: "span \<Rightarrow> span" where
  "span_frame sp = sp\<lparr>span_attrs := []\<rparr>"

definition span_step :: "runtime \<Rightarrow> runtime \<Rightarrow> bool" where
  "span_step s s' \<longleftrightarrow>
     map span_frame (open_spans s') = map span_frame (open_spans s) \<and>
     (\<exists>new. closed_spans s' = closed_spans s @ new \<and>
            next_span_id s' = next_span_id s + length new \<and>
            distinct (map span_id new) \<and>
            set (map span_id new) = {next_span_id s ..< next_span_id s'})"

definition balanced :: "('a, 'e, 'd) effect \<Rightarrow> bool" where
  "balanced d \<longleftrightarrow> (\<forall>s. span_step s (snd (d s)))"

section \<open>Evaluation of the business logic on the documented inputs\<close>

lemmas library_defs = succeed_def fail_def die_def flatMap_def map_effect_def catchTags_def
  catchTag_def sleep_def withSpan_def open_span_def close_span_def annotateCurrentSpan_def log_effect_def logInfo_def
  logWarning_def logError_def either_def toExit_def runPromise_def provide_TracingLive_def
  current_span_id_def merge_attrs_def

lemmas logic_defs = findById_def fetchUserData_def processUserData_def businessLogic_def
  businessLogic_handlers_def trim_def is_whitespace_def

lemmas trigger_defs = test_handler_either_def test_handler_catchTags_def test_handler_try_def
  test_pipeline_def response_handlers_def either_response_def success_response_def
  processed_json_def c_json_def userId_param_def

lemma init_not_cancelled: "cancel_after init_runtime = None"
  by (simp add: init_runtime_def)

lemma pair_fst_snd: "fst p = a \<Longrightarrow> p = (a, snd p)"
  by (cases p) simp


lemma fetchUserData_error:
  "cancel_after s = None \<Longrightarrow>
   fst (fetchUserData ''error'' s) = Failure (DatabaseError ''SELECT'' ''Connection timeout'')"
  by (simp add: library_defs logic_defs Let_def split: list.split)

lemma businessLogic_404:
  "cancel_after s = None \<Longrightarrow> fst (businessLogic ''404'' s) = Failure (UserNotFound ''404'')"
  by (simp add: library_defs logic_defs Let_def)

lemma businessLogic_error:
  "cancel_after s = None \<Longrightarrow>
   fst (businessLogic ''error'' s) = Defect (DatabaseError ''SELECT'' ''Connection timeout'')"
  by (simp add: library_defs logic_defs Let_def)

lemma businessLogic_process_error:
  "cancel_after s = None \<Longrightarrow>
   fst (businessLogic ''process-error'' s) =
     Defect (DatabaseError ''UPDATE'' ''Failed to update user status'')"
  by (simp add: library_defs logic_defs Let_def)

lemma businessLogic_123:
  "cancel_after s = None \<Longrightarrow>
   fst (businessLogic ''123'' s) =
     Success \<lparr>user_id = ''123'', name = ''John Doe'', email = ''john@example.com'',
              createdAt = clock s + 50, processed = True, timestamp = clock s + 100\<rparr>"
  by (simp add: library_defs logic_defs Let_def)

section \<open>Laws of the combinators\<close>

text \<open>
  Claim C2. For every description \<open>d\<close> and function \<open>f\<close>: where \<open>d\<close> ends in a Failure
  or a Defect, \<open>map(d, f)\<close> ends in the same Failure or Defect, with the same error
  value and the same state; where \<open>d\<close> ends in \<open>Success a\<close>, it ends in
  \<open>Success (f a)\<close>.
\<close>

theorem map_effect_transforms_success_only:
  "(d s = (Failure e, s') \<longrightarrow> map_effect d f s = (Failure e, s')) \<and>
   (d s = (Defect c, s') \<longrightarrow> map_effect d f s = (Defect c, s')) \<and>
   (d s = (Success a, s') \<longrightarrow> map_effect d f s = (Success (f a), s'))"
  by (simp add: map_effect_def)

theorem map_effect_transforms_success_only_witness:
  "fst (map_effect (businessLogic ''404'') processed_json init_runtime) =
     Failure (UserNotFound ''404'') \<and>
   fst (map_effect (businessLogic ''error'') processed_json init_runtime) =
     Defect (DatabaseError ''SELECT'' ''Connection timeout'') \<and>
   fst (map_effect (businessLogic ''123'') timestamp init_runtime) = Success 100"
proof -
  obtain s1 where f: "businessLogic ''404'' init_runtime = (Failure (UserNotFound ''404''), s1)"
    using businessLogic_404 [OF init_not_cancelled] by (metis pair_fst_snd)
  obtain s2 where d: "businessLogic ''error'' init_runtime =
      (Defect (DatabaseError ''SELECT'' ''Connection timeout''), s2)"
    using businessLogic_error [OF init_not_cancelled] by (metis pair_fst_snd)
  obtain s3 where a: "businessLogic ''123'' init_runtime =
      (Success \<lparr>user_id = ''123'', name = ''John Doe'', email = ''john@example.com'',
                createdAt = clock init_runtime + 50, processed = True,
                timestamp = clock init_runtime + 100\<rparr>, s3)"
    using businessLogic_123 [OF init_not_cancelled] by (metis pair_fst_snd)
  have "map_effect (businessLogic ''404'') processed_json init_runtime =
      (Failure (UserNotFound ''404''), s1)"
    using f map_effect_transforms_success_only
      [where d = "businessLogic ''404''" and s = init_runtime and s' = s1] by blast
  moreover have "map_effect (businessLogic ''error'') processed_json init_runtime =
      (Defect (DatabaseError ''SELECT'' ''Connection timeout''), s2)"
    using d map_effect_transforms_success_only
      [where d = "businessLogic ''error''" and s = init_runtime and s' = s2] by blast
  moreover have "map_effect (businessLogic ''123'') timestamp init_runtime =
      (Success (clock init_runtime + 100), s3)"
    using a map_effect_transforms_success_only
      [where d = "businessLogic ''123''" and s = init_runtime and s' = s3 and f = timestamp]
    by fastforce
  ultimately show ?thesis by (simp add: init_runtime_def)
qed

text \<open>
  Claim C3. For every description \<open>d\<close>: where \<open>d\<close> ends in a Failure whose kind has
  the handler \<open>h\<close> (in particular in \<open>catchKind(d, {K: h})\<close> with a Failure of kind
  \<open>K\<close>), the result is exactly the outcome and state of running \<open>h error\<close> from the
  state \<open>d\<close> left; where the kind has no handler, the Failure is returned unchanged;
  a Success or a Defect of \<open>d\<close> is returned unchanged.
\<close>

theorem catchTags_runs_matching_handler:
  "(d s = (Failure e, s') \<and> error_tag e = K \<longrightarrow> catchTags d [K \<mapsto> h] s = h e s') \<and>
   (d s = (Failure e, s') \<and> handlers (error_tag e) = Some h \<longrightarrow> catchTags d handlers s = h e s') \<and>
   (d s = (Failure e, s') \<and> handlers (error_tag e) = None \<longrightarrow>
      catchTags d handlers s = (Failure e, s')) \<and>
   (d s = (Success a, s') \<longrightarrow> catchTags d handlers s = (Success a, s')) \<and>
   (d s = (Defect c, s') \<longrightarrow> catchTags d handlers s = (Defect c, s'))"
  by (simp add: catchTags_def)

theorem catchTags_runs_matching_handler_witness:
  "fst (catchTags (businessLogic ''404'') [''UserNotFound'' \<mapsto> (\<lambda>e. die e)] init_runtime) =
     Defect (UserNotFound ''404'') \<and>
   fst (catchTags (businessLogic ''404'') [''DatabaseError'' \<mapsto> (\<lambda>e. die e)] init_runtime) =
     Failure (UserNotFound ''404'') \<and>
   catchTags (businessLogic ''123'') [''UserNotFound'' \<mapsto> (\<lambda>e. die e)] init_runtime =
     businessLogic ''123'' init_runtime \<and>
   catchTags (businessLogic ''error'') [''UserNotFound'' \<mapsto> (\<lambda>e. die e)] init_runtime =
     businessLogic ''error'' init_runtime"
proof -
  let ?hs = "[''UserNotFound'' \<mapsto> (\<lambda>e. die e)] ::
      string \<rightharpoonup> (app_error \<Rightarrow> (processed_user, app_error, app_error) effect)"
  let ?hs' = "[''DatabaseError'' \<mapsto> (\<lambda>e. die e)] ::
      string \<rightharpoonup> (app_error \<Rightarrow> (processed_user, app_error, app_error) effect)"
  obtain s1 where f: "businessLogic ''404'' init_runtime = (Failure (UserNotFound ''404''), s1)"
    using businessLogic_404 [OF init_not_cancelled] by (metis pair_fst_snd)
  obtain s2 where d: "businessLogic ''error'' init_runtime =
      (Defect (DatabaseError ''SELECT'' ''Connection timeout''), s2)"
    using businessLogic_error [OF init_not_cancelled] by (metis pair_fst_snd)
  obtain u s3 where a: "businessLogic ''123'' init_runtime = (Success u, s3)"
    using businessLogic_123 [OF init_not_cancelled] by (metis pair_fst_snd)
  have k: "error_tag (UserNotFound ''404'') = ''UserNotFound''"
    by simp
  have h: "?hs (error_tag (UserNotFound ''404'')) = Some (\<lambda>e. die e)"
    by simp
  have n: "?hs' (error_tag (UserNotFound ''404'')) = None"
    by simp
  have "catchTags (businessLogic ''404'') ?hs init_runtime = die (UserNotFound ''404'') s1"
    using f k catchTags_runs_matching_handler
      [where d = "businessLogic ''404''" and s = init_runtime and s' = s1
         and e = "UserNotFound ''404''" and K = "''UserNotFound''" and h = "\<lambda>e. die e"]
    by blast
  moreover have "catchTags (businessLogic ''404'') ?hs init_runtime = die (UserNotFound ''404'') s1"
    using f h catchTags_runs_matching_handler
      [where d = "businessLogic ''404''" and s = init_runtime and s' = s1
         and e = "UserNotFound ''404''" and handlers = ?hs and h = "\<lambda>e. die e"]
    by blast
  moreover have "catchTags (businessLogic ''404'') ?hs' init_runtime =
      (Failure (UserNotFound ''404''), s1)"
    using f n catchTags_runs_matching_handler
      [where d = "businessLogic ''404''" and s = init_runtime and s' = s1
         and e = "UserNotFound ''404''" and handlers = ?hs']
    by blast
  moreover have "catchTags (businessLogic ''123'') ?hs init_runtime = (Success u, s3)"
    using a catchTags_runs_matching_handler
      [where d = "businessLogic ''123''" and s = init_runtime and s' = s3 and handlers = ?hs]
    by blast
  moreover have "catchTags (businessLogic ''error'') ?hs init_runtime =
      (Defect (DatabaseError ''SELECT'' ''Connection timeout''), s2)"
    using d catchTags_runs_matching_handler
      [where d = "businessLogic ''error''" and s = init_runtime and s' = s2 and handlers = ?hs]
    by blast
  ultimately show ?thesis
    using a d by (simp add: die_def)
qed

text \<open>
  Claim C4. The either-style conversion turns Success into ok and \<open>Failure e\<close> into
  \<open>err e\<close>, and nothing else into err: an err value always comes from a typed Failure.
  A Defect stays a Defect under the conversion, so running it to completion rejects
  (the process-level fault); under the Exit-style conversion the same run resolves and
  hands the Defect to the caller as a value.
\<close>

theorem either_never_absorbs_defect:
  "(d s = (Success a, s') \<longrightarrow> either d s = (Success (Right a), s')) \<and>
   (d s = (Failure e, s') \<longrightarrow> either d s = (Success (Left e), s')) \<and>
   (d s = (Defect c, s') \<longrightarrow>
      either d s = (Defect c, s') \<and>
      runPromise (either d) s = (Rejected (Die c), s') \<and>
      runPromise (toExit d) s = (Resolved (Defect c), s')) \<and>
   (either d s = (Success (Left e), s') \<longrightarrow> d s = (Failure e, s'))"
  by (auto simp: either_def runPromise_def toExit_def split: outcome.splits prod.splits)

theorem either_never_absorbs_defect_witness:
  "fst ((either (businessLogic ''123'') :: (_, app_error, app_error) effect) init_runtime) =
     Success (Right \<lparr>user_id = ''123'', name = ''John Doe'', email = ''john@example.com'',
                     createdAt = 50, processed = True, timestamp = 100\<rparr>) \<and>
   fst ((either (businessLogic ''404'') :: (_, app_error, app_error) effect)
          init_runtime) = Success (Left (UserNotFound ''404'')) \<and>
   fst ((either (businessLogic ''error'') :: (_, app_error, app_error) effect) init_runtime) =
     Defect (DatabaseError ''SELECT'' ''Connection timeout'') \<and>
   fst (runPromise (either (businessLogic ''error'') :: (_, app_error, app_error) effect)
          init_runtime) =
     Rejected (Die (DatabaseError ''SELECT'' ''Connection timeout'')) \<and>
   fst (runPromise (toExit (businessLogic ''error'') :: (_, app_error, app_error) effect)
          init_runtime) =
     Resolved (Defect (DatabaseError ''SELECT'' ''Connection timeout''))"
proof -
  let ?u = "\<lparr>user_id = ''123'', name = ''John Doe'', email = ''john@example.com'',
             createdAt = clock init_runtime + 50, processed = True,
             timestamp = clock init_runtime + 100\<rparr>"
  let ?db = "DatabaseError ''SELECT'' ''Connection timeout''"
  obtain s1 where f: "businessLogic ''404'' init_runtime = (Failure (UserNotFound ''404''), s1)"
    using businessLogic_404 [OF init_not_cancelled] by (metis pair_fst_snd)
  obtain s2 where d: "businessLogic ''error'' init_runtime = (Defect ?db, s2)"
    using businessLogic_error [OF init_not_cancelled] by (metis pair_fst_snd)
  obtain s3 where a: "businessLogic ''123'' init_runtime = (Success ?u, s3)"
    using businessLogic_123 [OF init_not_cancelled] by (metis pair_fst_snd)
  have "(either (businessLogic ''123'') :: (_, app_error, app_error) effect) init_runtime =
      (Success (Right ?u), s3)"
    using a either_never_absorbs_defect
      [where d = "businessLogic ''123''" and s = init_runtime and s' = s3 and a = ?u]
    by blast
  moreover have "(either (businessLogic ''404'') :: (_, app_error, app_error) effect) init_runtime =
      (Success (Left (UserNotFound ''404'')), s1)"
    using f either_never_absorbs_defect
      [where d = "businessLogic ''404''" and s = init_runtime and s' = s1
         and e = "UserNotFound ''404''"]
    by blast
  moreover have
    "(either (businessLogic ''error'') :: (_, app_error, app_error) effect) init_runtime =
       (Defect ?db, s2) \<and>
     runPromise (either (businessLogic ''error'') :: (_, app_error, app_error) effect)
         init_runtime = (Rejected (Die ?db), s2) \<and>
     runPromise (toExit (businessLogic ''error'') :: (_, app_error, app_error) effect)
         init_runtime = (Resolved (Defect ?db), s2)"
    using d either_never_absorbs_defect
      [where d = "businessLogic ''error''" and s = init_runtime and s' = s2 and c = ?db]
    by blast
  ultimately show ?thesis by (simp add: init_runtime_def)
qed

section \<open>Every description built from the combinators is balanced\<close>

lemma span_step_refl: "span_step s s"
  by (simp add: span_step_def)

lemma span_step_trans:
  assumes "span_step s s'" and "span_step s' s''"
  shows "span_step s s''"
proof -
  from assms(1) obtain new1 where
    o1: "map span_frame (open_spans s') = map span_frame (open_spans s)" and
    c1: "closed_spans s' = closed_spans s @ new1" and
    n1: "next_span_id s' = next_span_id s + length new1" and
    d1: "distinct (map span_id new1)" and
    i1: "set (map span_id new1) = {next_span_id s ..< next_span_id s'}"
    unfolding span_step_def by blast
  from assms(2) obtain new2 where
    o2: "map span_frame (open_spans s'') = map span_frame (open_spans s')" and
    c2: "closed_spans s'' = closed_spans s' @ new2" and
    n2: "next_span_id s'' = next_span_id s' + length new2" and
    d2: "distinct (map span_id new2)" and
    i2: "set (map span_id new2) = {next_span_id s' ..< next_span_id s''}"
    unfolding span_step_def by blast
  have le: "next_span_id s \<le> next_span_id s'" "next_span_id s' \<le> next_span_id s''"
    using n1 n2 by simp_all
  have "closed_spans s'' = closed_spans s @ (new1 @ new2)"
    using c1 c2 by simp
  moreover have "next_span_id s'' = next_span_id s + length (new1 @ new2)"
    using n1 n2 by simp
  moreover have "distinct (map span_id (new1 @ new2))"
    using d1 d2 i1 i2 by auto
  moreover have "set (map span_id (new1 @ new2)) = {next_span_id s ..< next_span_id s''}"
    using i1 i2 le by auto
  ultimately show ?thesis
    unfolding span_step_def using o1 o2 by metis
qed

lemma span_step_same_spans:
  "open_spans s' = open_spans s \<Longrightarrow> closed_spans s' = closed_spans s \<Longrightarrow>
   next_span_id s' = next_span_id s \<Longrightarrow> span_step s s'"
  by (simp add: span_step_def)

lemma balancedI: "(\<And>s. span_step s (snd (d s))) \<Longrightarrow> balanced d"
  by (simp add: balanced_def)

lemma balancedD: "balanced d \<Longrightarrow> span_step s (snd (d s))"
  by (simp add: balanced_def)

lemma balanced_succeed: "balanced (succeed a)"
  by (simp add: balanced_def succeed_def span_step_refl)

lemma balanced_fail: "balanced (fail e)"
  by (simp add: balanced_def fail_def span_step_refl)

lemma balanced_die: "balanced (die c)"
  by (simp add: balanced_def die_def span_step_refl)

lemma balanced_log_effect: "balanced (log_effect level args)"
  by (simp add: balanced_def log_effect_def span_step_same_spans)

lemma balanced_logInfo: "balanced (logInfo args)"
  by (simp add: logInfo_def balanced_log_effect)

lemma balanced_logWarning: "balanced (logWarning args)"
  by (simp add: logWarning_def balanced_log_effect)

lemma balanced_logError: "balanced (logError args)"
  by (simp add: logError_def balanced_log_effect)

lemma balanced_sleep: "balanced (sleep ms)"
  by (auto simp: balanced_def sleep_def span_step_same_spans span_step_refl
           split: option.splits nat.splits)

lemma balanced_annotateCurrentSpan: "balanced (annotateCurrentSpan attributes)"
  by (auto simp: balanced_def annotateCurrentSpan_def span_step_def span_frame_def
           split: list.splits)

lemma balanced_flatMap:
  assumes "balanced m" and "\<And>a. balanced (f a)"
  shows "balanced (flatMap m f)"
proof (rule balancedI)
  fix s
  obtain r s' where ms: "m s = (r, s')"
    by (cases "m s")
  have st: "span_step s s'"
    using balancedD [OF assms(1), of s] ms by simp
  show "span_step s (snd (flatMap m f s))"
  proof (cases r)
    case (Success a)
    have "span_step s' (snd (f a s'))"
      using balancedD [OF assms(2)] .
    with st have "span_step s (snd (f a s'))"
      by (rule span_step_trans)
    then show ?thesis
      using ms Success by (simp add: flatMap_def)
  qed (use ms st in \<open>simp_all add: flatMap_def\<close>)
qed

lemma balanced_map_effect:
  assumes "balanced m"
  shows "balanced (map_effect m f)"
proof (rule balancedI)
  fix s
  show "span_step s (snd (map_effect m f s))"
    using balancedD [OF assms, of s]
    by (cases "m s") (auto simp: map_effect_def split: outcome.splits)
qed

lemma balanced_catchTags:
  assumes "balanced m" and "\<And>tag h e. handlers tag = Some h \<Longrightarrow> balanced (h e)"
  shows "balanced (catchTags m handlers)"
proof (rule balancedI)
  fix s
  obtain r s' where ms: "m s = (r, s')"
    by (cases "m s")
  have st: "span_step s s'"
    using balancedD [OF assms(1), of s] ms by simp
  show "span_step s (snd (catchTags m handlers s))"
  proof (cases r)
    case (Failure e)
    show ?thesis
    proof (cases "handlers (error_tag e)")
      case None
      then show ?thesis
        using ms st Failure by (simp add: catchTags_def)
    next
      case (Some h)
      have "span_step s' (snd (h e s'))"
        using balancedD [OF assms(2) [OF Some]] .
      with st have "span_step s (snd (h e s'))"
        by (rule span_step_trans)
      then show ?thesis
        using ms Failure Some by (simp add: catchTags_def)
    qed
  qed (use ms st in \<open>simp_all add: catchTags_def\<close>)
qed

lemma balanced_catchTag:
  assumes "balanced m" and "\<And>e. balanced (h e)"
  shows "balanced (catchTag m tag h)"
proof (rule balancedI)
  fix s
  obtain r s' where ms: "m s = (r, s')"
    by (cases "m s")
  have st: "span_step s s'"
    using balancedD [OF assms(1), of s] ms by simp
  show "span_step s (snd (catchTag m tag h s))"
  proof (cases r)
    case (Failure e)
    have "span_step s' (snd (h e s'))"
      using balancedD [OF assms(2)] .
    with st have "span_step s (snd (h e s'))"
      by (rule span_step_trans)
    then show ?thesis
      using ms st Failure by (simp add: catchTag_def)
  qed (use ms st in \<open>simp_all add: catchTag_def\<close>)
qed

lemma balanced_either:
  assumes "balanced m"
  shows "balanced (either m)"
proof (rule balancedI)
  fix s
  show "span_step s (snd (either m s))"
    using balancedD [OF assms, of s]
    by (cases "m s") (auto simp: either_def split: outcome.splits)
qed

lemma balanced_toExit:
  assumes "balanced m"
  shows "balanced (toExit m)"
proof (rule balancedI)
  fix s
  show "span_step s (snd (toExit m s))"
    using balancedD [OF assms, of s]
    by (cases "m s") (auto simp: toExit_def split: outcome.splits)
qed

lemma balanced_if:
  "balanced m \<Longrightarrow> balanced m' \<Longrightarrow> balanced (if b then m else m')"
  by simp

lemma balanced_succeed_reading_state: "balanced (\<lambda>s. succeed (g s) s)"
  by (simp add: balanced_def succeed_def span_step_refl)

lemma span_frame_eqD:
  assumes "span_frame a = span_frame b"
  shows "span_id a = span_id b" and "span_name a = span_name b"
    and "span_parent a = span_parent b"
proof -
  have "span_id (span_frame a) = span_id (span_frame b)"
    and "span_name (span_frame a) = span_name (span_frame b)"
    and "span_parent (span_frame a) = span_parent (span_frame b)"
    using assms by simp_all
  then show "span_id a = span_id b" and "span_name a = span_name b"
    and "span_parent a = span_parent b"
    by (simp_all add: span_frame_def)
qed

lemma withSpan_step:
  assumes "balanced d" and w: "withSpan nm attributes d s = (r, s')"
  obtains inner sp where
    "r = fst (d (open_span nm attributes s))"
    "map span_frame (open_spans s') = map span_frame (open_spans s)"
    "closed_spans s' = closed_spans s @ inner @ [sp]"
    "span_id sp = next_span_id s" "span_name sp = nm" "span_parent sp = current_span_id s"
    "span_status sp = status_of r"
    "next_span_id s' = next_span_id s + length (inner @ [sp])"
    "distinct (map span_id (inner @ [sp]))"
    "set (map span_id (inner @ [sp])) = {next_span_id s ..< next_span_id s'}"
proof -
  let ?s0 = "open_span nm attributes s"
  let ?sp0 = "\<lparr>span_id = next_span_id s, span_name = nm, span_parent = current_span_id s,
              span_attrs = attributes, span_status = StatusUnset, span_start = clock s,
              span_end = None\<rparr>"
  obtain r1 s1 where run: "d ?s0 = (r1, s1)"
    by (cases "d ?s0")
  have s0: "open_spans ?s0 = ?sp0 # open_spans s" "closed_spans ?s0 = closed_spans s"
      "next_span_id ?s0 = Suc (next_span_id s)"
    by (simp_all add: open_span_def)
  have "span_step ?s0 s1"
    using balancedD [OF assms(1), of ?s0] run by simp
  then obtain inner where
    o: "map span_frame (open_spans s1) = map span_frame (open_spans ?s0)" and
    c: "closed_spans s1 = closed_spans ?s0 @ inner" and
    n: "next_span_id s1 = next_span_id ?s0 + length inner" and
    d: "distinct (map span_id inner)" and
    i: "set (map span_id inner) = {next_span_id ?s0 ..< next_span_id s1}"
    unfolding span_step_def by blast
  from o s0(1) obtain cur rest where
    st: "open_spans s1 = cur # rest" and
    cur: "span_frame cur = span_frame ?sp0" and
    rest: "map span_frame rest = map span_frame (open_spans s)"
    by (cases "open_spans s1") auto
  let ?sp = "cur\<lparr>span_status := status_of r1, span_end := Some (clock s1)\<rparr>"
  have fields: "span_id cur = next_span_id s" "span_name cur = nm"
      "span_parent cur = current_span_id s"
    using span_frame_eqD [OF cur] by simp_all
  have res: "withSpan nm attributes d s =
      (r1, s1\<lparr>open_spans := rest, closed_spans := closed_spans s1 @ [?sp]\<rparr>)"
    using run st by (simp add: withSpan_def close_span_def)
  from w res have r: "r = r1"
    and s': "s' = s1\<lparr>open_spans := rest, closed_spans := closed_spans s1 @ [?sp]\<rparr>"
    by auto
  have notin: "next_span_id s \<notin> set (map span_id inner)"
    using i s0(3) by simp
  have ids: "set (map span_id (inner @ [?sp])) = {next_span_id s ..< next_span_id s1}"
    using i n s0(3) fields(1) by auto
  have dist: "distinct (map span_id (inner @ [?sp]))"
    using d notin fields(1) by simp
  show thesis
  proof (rule that [of inner ?sp])
    show "r = fst (d ?s0)" using r run by simp
    show "map span_frame (open_spans s') = map span_frame (open_spans s)"
      using rest s' by simp
    show "closed_spans s' = closed_spans s @ inner @ [?sp]"
      using c s0(2) s' by simp
    show "span_id ?sp = next_span_id s" "span_name ?sp = nm"
        "span_parent ?sp = current_span_id s"
      using fields by simp_all
    show "span_status ?sp = status_of r" using r by simp
    show "next_span_id s' = next_span_id s + length (inner @ [?sp])"
      using n s0(3) s' by simp
    show "distinct (map span_id (inner @ [?sp]))" by (rule dist)
    show "set (map span_id (inner @ [?sp])) = {next_span_id s ..< next_span_id s'}"
      using ids s' by simp
  qed
qed

lemma balanced_withSpan:
  assumes "balanced d"
  shows "balanced (withSpan nm attributes d)"
proof (rule balancedI)
  fix s
  obtain r s' where w: "withSpan nm attributes d s = (r, s')"
    by (cases "withSpan nm attributes d s")
  obtain inner sp where
    "r = fst (d (open_span nm attributes s))" and
    o: "map span_frame (open_spans s') = map span_frame (open_spans s)" and
    c: "closed_spans s' = closed_spans s @ inner @ [sp]" and
    "span_id sp = next_span_id s" "span_name sp = nm" "span_parent sp = current_span_id s"
    "span_status sp = status_of r" and
    n: "next_span_id s' = next_span_id s + length (inner @ [sp])" and
    d: "distinct (map span_id (inner @ [sp]))" and
    i: "set (map span_id (inner @ [sp])) = {next_span_id s ..< next_span_id s'}"
    by (rule withSpan_step [OF assms w])
  have "span_step s s'"
    unfolding span_step_def
    by (intro conjI o exI [of _ "inner @ [sp]"]) (use c n d i in simp_all)
  then show "span_step s (snd (withSpan nm attributes d s))"
    using w by simp
qed

lemma balanced_findById: "balanced (findById userId)"
  unfolding findById_def
  by (intro balanced_withSpan balanced_flatMap balanced_logInfo balanced_sleep balanced_if
        balanced_fail balanced_succeed balanced_succeed_reading_state)

lemma balanced_fetchUserData: "balanced (fetchUserData userId)"
  unfolding fetchUserData_def
  by (intro balanced_catchTag balanced_withSpan balanced_flatMap balanced_logInfo
        balanced_logError balanced_annotateCurrentSpan balanced_if balanced_fail
        balanced_findById)
     (simp add: balanced_fail balanced_succeed split: option.split)

lemma balanced_processUserData: "balanced (processUserData u)"
  unfolding processUserData_def
  by (intro balanced_withSpan balanced_flatMap balanced_logInfo balanced_sleep balanced_if
        balanced_fail balanced_succeed balanced_succeed_reading_state)

lemma balanced_businessLogic_handlers:
  "businessLogic_handlers tag = Some h \<Longrightarrow> balanced (h e)"
  by (auto simp: businessLogic_handlers_def split: if_splits
           intro!: balanced_flatMap balanced_logWarning balanced_logError balanced_fail
             balanced_die)

lemma balanced_businessLogic: "balanced (businessLogic userId)"
  unfolding businessLogic_def
  by (intro balanced_catchTags balanced_withSpan balanced_flatMap balanced_logInfo
        balanced_annotateCurrentSpan balanced_succeed balanced_fetchUserData
        balanced_processUserData)
     (rule balanced_businessLogic_handlers)

text \<open>
  Claim C8. For every balanced description \<open>d\<close> (every description built from the
  combinators is one) and every run, cancelled or not: \<open>withSpan\<close> returns the outcome
  of \<open>d\<close>; on exit the open spans are those of the entry, so the enclosing span is
  current again; the spans closed during the run are those \<open>d\<close> closed followed by
  exactly one more, the span this \<open>withSpan\<close> opened (its identifier, name and parent
  say so); as many spans are closed as were opened, none twice; and the status of that
  span is error if and only if \<open>d\<close> ended in a Failure or a Defect.
\<close>

theorem withSpan_closes_exactly_its_span:
  assumes "balanced d"
  shows "case withSpan nm attributes d s of (r, s') \<Rightarrow>
      r = fst (d (open_span nm attributes s)) \<and>
      map span_frame (open_spans s') = map span_frame (open_spans s) \<and>
      current_span_id s' = current_span_id s \<and>
      (\<exists>inner sp. closed_spans s' = closed_spans s @ inner @ [sp] \<and>
          span_id sp = next_span_id s \<and> span_name sp = nm \<and>
          span_parent sp = current_span_id s \<and>
          (span_status sp = StatusError \<longleftrightarrow> is_failure r \<or> is_defect r) \<and>
          next_span_id s' = next_span_id s + length (inner @ [sp]) \<and>
          distinct (map span_id (inner @ [sp])) \<and>
          set (map span_id (inner @ [sp])) = {next_span_id s ..< next_span_id s'}) \<and>
      balanced (withSpan nm attributes d)"
proof -
  obtain r s' where w: "withSpan nm attributes d s = (r, s')"
    by (cases "withSpan nm attributes d s")
  have status: "status_of r = StatusError \<longleftrightarrow> is_failure r \<or> is_defect r"
    by (cases r) simp_all
  obtain inner sp where
    r: "r = fst (d (open_span nm attributes s))" and
    o: "map span_frame (open_spans s') = map span_frame (open_spans s)" and
    c: "closed_spans s' = closed_spans s @ inner @ [sp]" and
    f: "span_id sp = next_span_id s" "span_name sp = nm" "span_parent sp = current_span_id s" and
    st: "span_status sp = status_of r" and
    n: "next_span_id s' = next_span_id s + length (inner @ [sp])" and
    d: "distinct (map span_id (inner @ [sp]))" and
    i: "set (map span_id (inner @ [sp])) = {next_span_id s ..< next_span_id s'}"
    by (rule withSpan_step [OF assms w])
  have cur: "current_span_id s' = current_span_id s"
  proof (cases "open_spans s")
    case Nil
    with o show ?thesis by (simp add: current_span_id_def)
  next
    case (Cons a as)
    with o obtain b bs where b: "open_spans s' = b # bs" and fr: "span_frame b = span_frame a"
      by (cases "open_spans s'") auto
    from Cons b span_frame_eqD(1) [OF fr] show ?thesis
      by (simp add: current_span_id_def)
  qed
  have st': "span_status sp = StatusError \<longleftrightarrow> is_failure r \<or> is_defect r"
    unfolding st by (rule status)
  have ex: "\<exists>inner sp. closed_spans s' = closed_spans s @ inner @ [sp] \<and>
          span_id sp = next_span_id s \<and> span_name sp = nm \<and>
          span_parent sp = current_span_id s \<and>
          (span_status sp = StatusError \<longleftrightarrow> is_failure r \<or> is_defect r) \<and>
          next_span_id s' = next_span_id s + length (inner @ [sp]) \<and>
          distinct (map span_id (inner @ [sp])) \<and>
          set (map span_id (inner @ [sp])) = {next_span_id s ..< next_span_id s'}"
    by (rule exI [of _ inner], rule exI [of _ sp]) (intro conjI c f st' n d i)
  have b: "balanced (withSpan nm attributes d)"
    using assms by (rule balanced_withSpan)
  from r o cur ex b show ?thesis
    unfolding w prod.case by blast
qed

theorem withSpan_closes_exactly_its_span_witness:
  "balanced (sleep 50 :: (unit, app_error, app_error) effect) \<and>
   (case withSpan ''db.query'' [] (sleep 50 :: (unit, app_error, app_error) effect)
           (init_runtime\<lparr>cancel_after := Some 0\<rparr>) of
      (r, s') \<Rightarrow>
        r = Interrupted \<and> open_spans s' = [] \<and> current_span_id s' = None \<and>
        next_span_id s' = 1 \<and>
        map (\<lambda>sp. (span_id sp, span_name sp, span_parent sp, span_status sp)) (closed_spans s') =
          [(0, ''db.query'', None, StatusOk)]) \<and>
   (case withSpan ''request'' [] (businessLogic ''error'') init_runtime of
      (r, s') \<Rightarrow>
        r = Defect (DatabaseError ''SELECT'' ''Connection timeout'') \<and> open_spans s' = [] \<and>
        next_span_id s' = 4 \<and>
        map (\<lambda>sp. (span_id sp, span_name sp, span_parent sp, span_status sp)) (closed_spans s') =
          [(3, ''db.query'', Some 2, StatusError), (2, ''user.fetch'', Some 1, StatusError),
           (1, ''business.main'', Some 0, StatusError), (0, ''request'', None, StatusError)])"
proof -
  let ?d = "sleep 50 :: (unit, app_error, app_error) effect"
  let ?s = "init_runtime\<lparr>cancel_after := Some 0\<rparr>"
  have b1: "balanced ?d"
    by (rule balanced_sleep)
  have b2: "balanced (businessLogic ''error'')"
    by (rule balanced_businessLogic)
  have e1: "withSpan ''db.query'' [] ?d ?s =
      (Interrupted,
       \<lparr>open_spans = [],
        closed_spans = [\<lparr>span_id = 0, span_name = ''db.query'', span_parent = None,
                         span_attrs = [], span_status = StatusOk, span_start = 0,
                         span_end = Some 0\<rparr>],
        next_span_id = 1, logs = [], clock = 0, cancel_after = Some 0\<rparr>)"
    by (simp add: library_defs init_runtime_def)
  obtain r2 s2 where e2: "withSpan ''request'' [] (businessLogic ''error'') init_runtime = (r2, s2)"
    by (cases "withSpan ''request'' [] (businessLogic ''error'') init_runtime")
  have v2: "r2 = Defect (DatabaseError ''SELECT'' ''Connection timeout'') \<and> open_spans s2 = [] \<and>
        next_span_id s2 = 4 \<and>
        map (\<lambda>sp. (span_id sp, span_name sp, span_parent sp, span_status sp)) (closed_spans s2) =
          [(3, ''db.query'', Some 2, StatusError), (2, ''user.fetch'', Some 1, StatusError),
           (1, ''business.main'', Some 0, StatusError), (0, ''request'', None, StatusError)]"
    using e2 by (simp add: library_defs logic_defs init_runtime_def) auto
  from withSpan_closes_exactly_its_span [OF b1, of "''db.query''" "[]" ?s]
       withSpan_closes_exactly_its_span [OF b2, of "''request''" "[]" init_runtime]
  show ?thesis
    using b1 v2 unfolding e1 e2 by simp
qed

section \<open>End-to-end behaviour of the trigger\<close>

lemma test_pipeline_404:
  "cancel_after s = None \<Longrightarrow>
   fst (test_pipeline ''404'' s) =
     Success \<lparr>status = 404,
              body = JObj [(''success'', JBool False),
                           (''error'', JObj [(''type'', JStr ''UserNotFound''),
                                             (''message'', JStr ''User with ID 404 not found'')])]\<rparr>"
  by (simp add: library_defs logic_defs trigger_defs Let_def)

lemma catchTags_after_failure:
  "fst (d s) = Failure e \<Longrightarrow> handlers (error_tag e) = Some h \<Longrightarrow>
   catchTags (map_effect d f) handlers s = h e (snd (d s))"
  by (cases "d s") (simp add: catchTags_def map_effect_def)

text \<open>
  Claim C1. On the input \<open>"404"\<close>, whose run ends in a Failure, the two orders differ.
  With \<open>catchTags\<close> before \<open>map\<close>, the function of \<open>map\<close> is applied to the response
  the handler recovered with: the result is a success response whose data is the 404
  response. With \<open>map\<close> before \<open>catchTags\<close>, the result is exactly what the handler
  yields from the state the business logic left, and the function of \<open>map\<close> is not
  applied. The pipeline of the route, which has the second order, answers 404.
\<close>

theorem catch_then_map_differs_from_map_then_catch:
  assumes "cancel_after s = None"
  shows "fst (businessLogic ''404'' s) = Failure (UserNotFound ''404'') \<and>
    fst (catch_then_map error_obj ''404'' s) =
      Success (success_response
        (JResponse 404 (JObj [(''success'', JBool False),
                              (''error'', error_obj (UserNotFound ''404''))]))) \<and>
    map_then_catch error_obj ''404'' s =
      succeed (not_found_response error_obj (UserNotFound ''404''))
        (snd (businessLogic ''404'' s)) \<and>
    fst (map_then_catch error_obj ''404'' s) =
      Success (not_found_response error_obj (UserNotFound ''404'')) \<and>
    fst (catch_then_map error_obj ''404'' s) \<noteq> fst (map_then_catch error_obj ''404'' s) \<and>
    snd (catch_then_map error_obj ''404'' s) = snd (map_then_catch error_obj ''404'' s) \<and>
    fst (test_pipeline ''404'' s) =
      Success \<lparr>status = 404,
               body = JObj [(''success'', JBool False),
                            (''error'', JObj [(''type'', JStr ''UserNotFound''),
                                              (''message'', JStr ''User with ID 404 not found'')])]\<rparr>"
proof -
  have f: "fst (businessLogic ''404'' s) = Failure (UserNotFound ''404'')"
    using assms by (rule businessLogic_404)
  have c: "fst (catch_then_map error_obj ''404'' s) =
      Success (success_response
        (JResponse 404 (JObj [(''success'', JBool False),
                              (''error'', error_obj (UserNotFound ''404''))])))"
    using assms
    by (simp add: catch_then_map_def not_found_response_def data_json_def c_json_def
          library_defs logic_defs Let_def)
  have m: "map_then_catch error_obj ''404'' s =
      succeed (not_found_response error_obj (UserNotFound ''404''))
        (snd (businessLogic ''404'' s))"
    unfolding map_then_catch_def
    by (rule catchTags_after_failure [where d = "businessLogic ''404''" and s = s, OF f]) simp
  have m': "fst (map_then_catch error_obj ''404'' s) =
      Success (not_found_response error_obj (UserNotFound ''404''))"
    unfolding m by (simp add: succeed_def)
  have ne: "fst (catch_then_map error_obj ''404'' s) \<noteq> fst (map_then_catch error_obj ''404'' s)"
    unfolding c m' by (simp add: success_response_def not_found_response_def c_json_def)
  have st: "snd (catch_then_map error_obj ''404'' s) = snd (map_then_catch error_obj ''404'' s)"
    using assms
    by (simp add: catch_then_map_def map_then_catch_def not_found_response_def data_json_def
          c_json_def library_defs logic_defs Let_def)
  from f c m m' ne st test_pipeline_404 [OF assms] show ?thesis
    by blast
qed

theorem catch_then_map_differs_from_map_then_catch_witness:
  "fst (catch_then_map (\<lambda>e. JStr (message e)) ''404'' init_runtime) =
     Success \<lparr>status = 200,
              body = JObj [(''success'', JBool True),
                           (''data'', JResponse 404
                              (JObj [(''success'', JBool False),
                                     (''error'', JStr ''User with ID 404 not found'')]))]\<rparr> \<and>
   fst (map_then_catch (\<lambda>e. JStr (message e)) ''404'' init_runtime) =
     Success \<lparr>status = 404,
              body = JObj [(''success'', JBool False),
                           (''error'', JStr ''User with ID 404 not found'')]\<rparr>"
  using catch_then_map_differs_from_map_then_catch
    [OF init_not_cancelled, of "\<lambda>e. JStr (message e)"]
  by (simp add: success_response_def not_found_response_def c_json_def succeed_def)





lemma findById_leaves_a_db_query_span:
  "length (filter (\<lambda>sp. span_name sp = ''db.query'') (closed_spans (snd (findById userId s)))) =
   Suc (length (filter (\<lambda>sp. span_name sp = ''db.query'') (closed_spans s)))"
  by (simp add: findById_def library_defs split: option.split nat.split)

lemma findById_logs_the_query:
  "logs (snd (findById userId s)) = logs s @ [(LevelInfo, [Text (''DB: Querying user '' @ userId)])]"
  by (simp add: findById_def library_defs split: option.split nat.split)

text \<open>
  Claim C6. With \<open>userId = ""\<close>, every run of the business logic, from every state,
  ends in the typed Failure \<open>ValidationError\<close> with field \<open>"userId"\<close>. The state it
  leaves is the initial one plus three log entries and the two spans \<open>user.fetch\<close> and
  \<open>business.main\<close>, both with status error: no \<open>db.query\<close> span, no log entry of the
  repository, no suspension (the clock and the cancellation request are untouched).
  Every run of \<open>findById\<close> leaves one more \<open>db.query\<close> span and the log entry of
  its query, so \<open>findById\<close> did not run.
\<close>

theorem empty_userId_fails_validation_before_lookup:
  "businessLogic [] s =
     (Failure (ValidationError ''userId'' ''User ID cannot be empty''),
      s\<lparr>closed_spans := closed_spans s @
           [\<lparr>span_id = Suc (next_span_id s), span_name = ''user.fetch'',
             span_parent = Some (next_span_id s), span_attrs = [(''userId'', AStr [])],
             span_status = StatusError, span_start = clock s, span_end = Some (clock s)\<rparr>,
            \<lparr>span_id = next_span_id s, span_name = ''business.main'',
             span_parent = current_span_id s, span_attrs = [],
             span_status = StatusError, span_start = clock s, span_end = Some (clock s)\<rparr>],
         next_span_id := Suc (Suc (next_span_id s)),
         logs := logs s @
           [(LevelInfo, [Text ''Starting business logic'']),
            (LevelInfo, [Text ''Fetching user data for: '']),
            (LevelWarning, [Text ''Validation failed: userId - User ID cannot be empty''])]\<rparr>) \<and>
   length (filter (\<lambda>sp. span_name sp = ''db.query'') (closed_spans (snd (businessLogic [] s)))) =
     length (filter (\<lambda>sp. span_name sp = ''db.query'') (closed_spans s)) \<and>
   (\<forall>userId s0.
      length (filter (\<lambda>sp. span_name sp = ''db.query'')
        (closed_spans (snd ((findById userId :: (user option, app_error, app_error) effect) s0)))) =
        Suc (length (filter (\<lambda>sp. span_name sp = ''db.query'') (closed_spans s0))) \<and>
      logs (snd ((findById userId :: (user option, app_error, app_error) effect) s0)) =
        logs s0 @ [(LevelInfo, [Text (''DB: Querying user '' @ userId)])])"
proof -
  have run: "businessLogic [] s =
     (Failure (ValidationError ''userId'' ''User ID cannot be empty''),
      s\<lparr>closed_spans := closed_spans s @
           [\<lparr>span_id = Suc (next_span_id s), span_name = ''user.fetch'',
             span_parent = Some (next_span_id s), span_attrs = [(''userId'', AStr [])],
             span_status = StatusError, span_start = clock s, span_end = Some (clock s)\<rparr>,
            \<lparr>span_id = next_span_id s, span_name = ''business.main'',
             span_parent = current_span_id s, span_attrs = [],
             span_status = StatusError, span_start = clock s, span_end = Some (clock s)\<rparr>],
         next_span_id := Suc (Suc (next_span_id s)),
         logs := logs s @
           [(LevelInfo, [Text ''Starting business logic'']),
            (LevelInfo, [Text ''Fetching user data for: '']),
            (LevelWarning, [Text ''Validation failed: userId - User ID cannot be empty''])]\<rparr>)"
    by (simp add: library_defs logic_defs)
  have count: "length (filter (\<lambda>sp. span_name sp = ''db.query'')
        (closed_spans (snd (businessLogic [] s)))) =
      length (filter (\<lambda>sp. span_name sp = ''db.query'') (closed_spans s))"
    unfolding run by simp
  from run count show ?thesis
    using findById_leaves_a_db_query_span findById_logs_the_query by blast
qed

theorem empty_userId_fails_validation_before_lookup_witness:
  "businessLogic [] init_runtime =
     (Failure (ValidationError ''userId'' ''User ID cannot be empty''),
      \<lparr>open_spans = [],
       closed_spans =
         [\<lparr>span_id = 1, span_name = ''user.fetch'', span_parent = Some 0,
           span_attrs = [(''userId'', AStr [])], span_status = StatusError,
           span_start = 0, span_end = Some 0\<rparr>,
          \<lparr>span_id = 0, span_name = ''business.main'', span_parent = None,
           span_attrs = [], span_status = StatusError, span_start = 0, span_end = Some 0\<rparr>],
       next_span_id = 2,
       logs =
         [(LevelInfo, [Text ''Starting business logic'']),
          (LevelInfo, [Text ''Fetching user data for: '']),
          (LevelWarning, [Text ''Validation failed: userId - User ID cannot be empty''])],
       clock = 0, cancel_after = None\<rparr>)"
proof -
  from empty_userId_fails_validation_before_lookup [of init_runtime]
  have "businessLogic [] init_runtime =
     (Failure (ValidationError ''userId'' ''User ID cannot be empty''),
      init_runtime\<lparr>closed_spans := closed_spans init_runtime @
           [\<lparr>span_id = Suc (next_span_id init_runtime), span_name = ''user.fetch'',
             span_parent = Some (next_span_id init_runtime),
             span_attrs = [(''userId'', AStr [])], span_status = StatusError,
             span_start = clock init_runtime, span_end = Some (clock init_runtime)\<rparr>,
            \<lparr>span_id = next_span_id init_runtime, span_name = ''business.main'',
             span_parent = current_span_id init_runtime, span_attrs = [],
             span_status = StatusError, span_start = clock init_runtime,
             span_end = Some (clock init_runtime)\<rparr>],
         next_span_id := Suc (Suc (next_span_id init_runtime)),
         logs := logs init_runtime @
           [(LevelInfo, [Text ''Starting business logic'']),
            (LevelInfo, [Text ''Fetching user data for: '']),
            (LevelWarning, [Text ''Validation failed: userId - User ID cannot be empty''])]\<rparr>)"
    by (rule conjunct1)
  also have "init_runtime\<lparr>closed_spans := closed_spans init_runtime @
           [\<lparr>span_id = Suc (next_span_id init_runtime), span_name = ''user.fetch'',
             span_parent = Some (next_span_id init_runtime),
             span_attrs = [(''userId'', AStr [])], span_status = StatusError,
             span_start = clock init_runtime, span_end = Some (clock init_runtime)\<rparr>,
            \<lparr>span_id = next_span_id init_runtime, span_name = ''business.main'',
             span_parent = current_span_id init_runtime, span_attrs = [],
             span_status = StatusError, span_start = clock init_runtime,
             span_end = Some (clock init_runtime)\<rparr>],
         next_span_id := Suc (Suc (next_span_id init_runtime)),
         logs := logs init_runtime @
           [(LevelInfo, [Text ''Starting business logic'']),
            (LevelInfo, [Text ''Fetching user data for: '']),
            (LevelWarning, [Text ''Validation failed: userId - User ID cannot be empty''])]\<rparr> =
      \<lparr>open_spans = [],
       closed_spans =
         [\<lparr>span_id = 1, span_name = ''user.fetch'', span_parent = Some 0,
           span_attrs = [(''userId'', AStr [])], span_status = StatusError,
           span_start = 0, span_end = Some 0\<rparr>,
          \<lparr>span_id = 0, span_name = ''business.main'', span_parent = None,
           span_attrs = [], span_status = StatusError, span_start = 0, span_end = Some 0\<rparr>],
       next_span_id = 2,
       logs =
         [(LevelInfo, [Text ''Starting business logic'']),
          (LevelInfo, [Text ''Fetching user data for: '']),
          (LevelWarning, [Text ''Validation failed: userId - User ID cannot be empty''])],
       clock = 0, cancel_after = None\<rparr>"
    by (simp add: init_runtime_def current_span_id_def)
  finally show ?thesis .
qed

lemma test_handler_either_error:
  "cancel_after s = None \<Longrightarrow>
   fst (test_handler_either (Some ''error'') s) =
     Rejected (Die (DatabaseError ''SELECT'' ''Connection timeout''))"
  by (simp add: library_defs logic_defs trigger_defs Let_def)

lemma test_handler_catchTags_error:
  "cancel_after s = None \<Longrightarrow>
   fst (test_handler_catchTags (Some ''error'') s) =
     Rejected (Die (DatabaseError ''SELECT'' ''Connection timeout''))"
  by (simp add: library_defs logic_defs trigger_defs Let_def)

lemma test_handler_try_error:
  "cancel_after s = None \<Longrightarrow>
   fst (test_handler_try failure_message businessLogic (Some ''error'') s) =
     Resolved \<lparr>status = 500,
               body = JObj [(''success'', JBool False),
                            (''error'', JStr (failure_message
                               (Die (DatabaseError ''SELECT'' ''Connection timeout''))))]\<rparr>"
  by (simp add: library_defs logic_defs trigger_defs Let_def)

lemma businessLogic_error_spans:
  "cancel_after s = None \<Longrightarrow>
   map (\<lambda>sp. (span_name sp, span_status sp))
     (drop (length (closed_spans s)) (closed_spans (snd (businessLogic ''error'' s)))) =
   [(''db.query'', StatusError), (''user.fetch'', StatusError), (''business.main'', StatusError)]"
  by (simp add: library_defs logic_defs Let_def)

text \<open>
  Claim C7. With \<open>userId = "error"\<close>, in every run that is not cancelled, the lookup
  fault is downgraded and the business logic ends in a Defect carrying the
  \<open>DatabaseError\<close>, not in a typed Failure. The handler with try/catch answers it with
  a 500 response that carries only the message of the rejection. The handlers with
  \<open>Effect.either\<close> and with \<open>Effect.catchTags\<close> take none of their typed branches:
  their promise rejects with the defect, which the framework answers with the generic
  internal-fault response. The three spans of the run, the enclosing \<open>business.main\<close>
  last, are closed with status error.
\<close>

theorem database_fault_ends_in_defect:
  assumes "cancel_after s = None"
  shows "fst (businessLogic ''error'' s) = Defect (DatabaseError ''SELECT'' ''Connection timeout'') \<and>
    \<not> is_failure (fst (businessLogic ''error'' s)) \<and>
    fst (test_handler_try failure_message businessLogic (Some ''error'') s) =
      Resolved \<lparr>status = 500,
                body = JObj [(''success'', JBool False),
                             (''error'', JStr (failure_message
                                (Die (DatabaseError ''SELECT'' ''Connection timeout''))))]\<rparr> \<and>
    fst (test_handler_either (Some ''error'') s) =
      Rejected (Die (DatabaseError ''SELECT'' ''Connection timeout'')) \<and>
    fst (test_handler_catchTags (Some ''error'') s) =
      Rejected (Die (DatabaseError ''SELECT'' ''Connection timeout'')) \<and>
    serve (fst (test_handler_either (Some ''error'') s)) = Some internal_fault_response \<and>
    serve (fst (test_handler_catchTags (Some ''error'') s)) = Some internal_fault_response \<and>
    map (\<lambda>sp. (span_name sp, span_status sp))
      (drop (length (closed_spans s)) (closed_spans (snd (businessLogic ''error'' s)))) =
    [(''db.query'', StatusError), (''user.fetch'', StatusError), (''business.main'', StatusError)]"
  using businessLogic_error [OF assms] test_handler_try_error [OF assms]
    test_handler_either_error [OF assms] test_handler_catchTags_error [OF assms]
    businessLogic_error_spans [OF assms]
  by (simp add: serve_def)

theorem database_fault_ends_in_defect_witness:
  "fst (businessLogic ''error'' init_runtime) =
     Defect (DatabaseError ''SELECT'' ''Connection timeout'') \<and>
   fst (test_handler_try (\<lambda>c. ''Connection timeout'') businessLogic (Some ''error'') init_runtime) =
     Resolved \<lparr>status = 500,
               body = JObj [(''success'', JBool False),
                            (''error'', JStr ''Connection timeout'')]\<rparr> \<and>
   serve (fst (test_handler_either (Some ''error'') init_runtime)) =
     Some \<lparr>status = 500, body = JStr ''Internal Server Error''\<rparr> \<and>
   map (\<lambda>sp. (span_name sp, span_status sp))
     (closed_spans (snd (businessLogic ''error'' init_runtime))) =
   [(''db.query'', StatusError), (''user.fetch'', StatusError), (''business.main'', StatusError)]"
proof -
  have "closed_spans init_runtime = []"
    by (simp add: init_runtime_def)
  with database_fault_ends_in_defect [OF init_not_cancelled, of "\<lambda>c. ''Connection timeout''"]
  show ?thesis
    by (simp add: internal_fault_response_def serve_def)
qed

lemma catchTags_businessLogic_handlers_failure:
  assumes "fst (catchTags m businessLogic_handlers s) = Failure e"
  shows "error_tag e = ''ValidationError'' \<or> error_tag e = ''UserNotFound''"
proof (cases "m s")
  case (Pair r s')
  show ?thesis
  proof (cases r)
    case (Failure x)
    with Pair assms show ?thesis
      by (cases x)
         (auto simp: catchTags_def businessLogic_handlers_def flatMap_def logWarning_def
            logError_def log_effect_def fail_def die_def)
  qed (use Pair assms in \<open>simp_all add: catchTags_def\<close>)
qed

text \<open>
  Claim C9. For every \<open>userId\<close> and every run, a typed Failure of the business logic is
  a \<open>ValidationError\<close> or a \<open>UserNotFound\<close>, never a \<open>DatabaseError\<close>; hence after the
  either conversion the handler never receives a \<open>Left\<close> holding a \<open>DatabaseError\<close>, for
  any path parameter, and its \<open>DatabaseError\<close> branch is dead. Both database faults,
  the lookup fault of \<open>"error"\<close> and the update fault of \<open>"process-error"\<close>, end in a
  Defect when the run is not cancelled.
\<close>

theorem businessLogic_never_fails_with_DatabaseError:
  "(fst (businessLogic userId s) = Failure e \<longrightarrow>
      error_tag e = ''ValidationError'' \<or> error_tag e = ''UserNotFound'') \<and>
   fst (businessLogic userId s) \<noteq> Failure (DatabaseError operation details) \<and>
   fst (runPromise (either (provide_TracingLive (businessLogic (userId_param p)))) s) \<noteq>
     (Resolved (Left (DatabaseError operation details)) ::
        ((app_error, processed_user) either_value, app_error, app_error) promise) \<and>
   (cancel_after s = None \<longrightarrow>
      fst (businessLogic ''error'' s) = Defect (DatabaseError ''SELECT'' ''Connection timeout'') \<and>
      fst (businessLogic ''process-error'' s) =
        Defect (DatabaseError ''UPDATE'' ''Failed to update user status''))"
proof -
  have tags: "error_tag x = ''ValidationError'' \<or> error_tag x = ''UserNotFound''"
    if "fst (businessLogic u s) = Failure x" for u x
    using that unfolding businessLogic_def
    by (rule catchTags_businessLogic_handlers_failure)
  have no_db: "fst (businessLogic u s) \<noteq> Failure (DatabaseError operation details)" for u
    using tags [of u "DatabaseError operation details"] by auto
  have no_left: "fst (runPromise (either (provide_TracingLive (businessLogic (userId_param p)))) s) \<noteq>
     (Resolved (Left (DatabaseError operation details)) ::
        ((app_error, processed_user) either_value, app_error, app_error) promise)"
    using no_db [of "userId_param p"]
    by (cases "businessLogic (userId_param p) s")
       (auto simp: runPromise_def either_def provide_TracingLive_def split: outcome.splits)
  from tags no_db no_left businessLogic_error businessLogic_process_error
  show ?thesis by blast
qed

theorem businessLogic_never_fails_with_DatabaseError_witness:
  "fst (businessLogic ''404'' init_runtime) = Failure (UserNotFound ''404'') \<and>
   error_tag (UserNotFound ''404'') = ''UserNotFound'' \<and>
   fst (businessLogic ''error'' init_runtime) =
     Defect (DatabaseError ''SELECT'' ''Connection timeout'') \<and>
   fst (businessLogic ''process-error'' init_runtime) =
     Defect (DatabaseError ''UPDATE'' ''Failed to update user status'')"
  using businessLogic_never_fails_with_DatabaseError
      [of "''404''" init_runtime "UserNotFound ''404''"]
    businessLogic_404 [OF init_not_cancelled] init_not_cancelled
  by simp




lemma test_handler_either_blank:
  "fst (test_handler_either (Some '' '') s) =
     Resolved \<lparr>status = 400,
               body = JObj [(''success'', JBool False),
                            (''error'', JObj [(''type'', JStr ''ValidationError''),
                                              (''field'', JStr ''userId''),
                                              (''message'', JStr ''User ID cannot be empty'')])]\<rparr>"
  by (simp add: library_defs logic_defs trigger_defs Let_def)




lemma test_handler_catchTags_blank:
  "fst (test_handler_catchTags (Some '' '') s) =
     Resolved \<lparr>status = 400,
               body = JObj [(''success'', JBool False),
                            (''error'', JObj [(''type'', JStr ''ValidationError''),
                                              (''field'', JStr ''userId''),
                                              (''message'', JStr ''User ID cannot be empty'')])]\<rparr>"
  by (simp add: library_defs logic_defs trigger_defs Let_def)

lemma test_handler_try_blank:
  "fst (test_handler_try failure_message businessLogic (Some '' '') s) =
     Resolved \<lparr>status = 500,
               body = JObj [(''success'', JBool False),
                            (''error'', JStr (failure_message
                               (Fail (ValidationError ''userId'' ''User ID cannot be empty''))))]\<rparr>"
  by (simp add: library_defs logic_defs trigger_defs Let_def)




end
